theory Spec2Isabelle
  imports Main
begin

section \<open>Data model\<close>

text \<open>
  The auth service of the repository: \<^verbatim>\<open>TokenService\<close> (a Redis client holding refresh
  records and the revocation set), \<^verbatim>\<open>UsersService\<close> (the user directory),
  \<^verbatim>\<open>AuthService\<close> (issuance, logout, validation), the two passport strategies and the
  microservice controller.

  The third-party libraries are modelled by what they compute, cryptography symbolically:
  \<^item> a JSON web token is a term holding the signing secret and the signed claims;
    verification succeeds exactly when the secret is the verifier's and the expiry is
    in the future, and signing is a function of secret, payload, lifetime and the
    clock second. Its string is the compact serialization: the base64url of the header,
    of the claims as JSON and of the HS256 signature, joined by dots; the HMAC itself
    is a parameter of the state;
  \<^item> a bcrypt digest is a term holding the salt, the cost and the 72 key bytes bcrypt
    reads from its input (the input with its terminating zero byte, repeated);
    \<open>bcrypt_compare\<close> holds exactly when the input yields the key bytes of the digest;
  \<^item> \<^verbatim>\<open>uuidv4()\<close> and the bcrypt salt are drawn from an entropy source carried by the
    state;
  \<^item> Redis is a map from keys to a value and the second at which the key expires;
    the client may be disconnected, and then every command is rejected.
  Time is the clock of the state, in seconds. An operation reads the clock and does not
  advance it; \<open>advance\<close> lets time pass between operations.
\<close>

datatype bcrypt = Bcrypt (salt: string) (cost: nat) (key: string)

record user =
  user_id :: string
  email :: string
  password :: bcrypt
  firstName :: "string option"
  lastName :: "string option"
  isActive :: bool
  roles :: "string list"
  createdAt :: nat
  updatedAt :: nat

text \<open>
  The payload handed to \<^verbatim>\<open>signAsync\<close>: \<^verbatim>\<open>{ sub, email, roles, jti }\<close> for an access token,
  \<^verbatim>\<open>{ sub }\<close> for a refresh token (the other fields are then \<^verbatim>\<open>undefined\<close>). Signing adds
  \<^verbatim>\<open>iat\<close> and \<^verbatim>\<open>exp\<close>.
\<close>

record payload =
  sub :: string
  email_claim :: "string option"
  roles_claim :: "string list option"
  jti :: "string option"

record claims = payload +
  iat :: nat
  exp :: nat

datatype jwt = Jwt (signed_with: string) (signed_claims: claims) | Malformed string

datatype exn =
    UnauthorizedException string
  | ConflictException string
  | JsonWebTokenError string
  | TokenExpiredError
  | ReplyError string
  | StoreUnavailable
  | Error string

text \<open>
  A stored value is a digest that \<open>bcrypt_hash\<close> produced, or a string that is not in
  bcrypt's digest format.
\<close>

datatype redis_value = Str string | Digest bcrypt

datatype redis_cmd = SET string redis_value nat | GET string | DEL string

record config =
  accessSecret :: string
  accessExpiresIn :: nat
  refreshSecret :: string
  refreshExpiresIn :: nat

record world =
  clock :: nat
  conf :: config
  users :: "user list"
  redis_up :: bool
  redis :: "string \<Rightarrow> (redis_value \<times> nat) option"
  redis_log :: "redis_cmd list"
  entropy :: "nat \<Rightarrow> string"
  drawn :: nat
  hmac :: "string \<Rightarrow> string \<Rightarrow> string"

type_synonym 'a result = "(exn + 'a) \<times> world"

definition advance :: "nat \<Rightarrow> world \<Rightarrow> world" where
  "advance d w = w\<lparr>clock := clock w + d\<rparr>"

section \<open>Libraries\<close>

definition jwt_sign :: "string \<Rightarrow> payload \<Rightarrow> nat \<Rightarrow> nat \<Rightarrow> jwt" where
  "jwt_sign secret p expiresIn now =
     Jwt secret \<lparr>sub = sub p, email_claim = email_claim p, roles_claim = roles_claim p,
       jti = jti p, iat = now, exp = now + expiresIn\<rparr>"

fun jwt_verify :: "string \<Rightarrow> nat \<Rightarrow> jwt \<Rightarrow> exn + claims" where
  "jwt_verify secret now (Malformed s) = Inl (JsonWebTokenError ''jwt malformed'')"
| "jwt_verify secret now (Jwt k c) =
     (if k \<noteq> secret then Inl (JsonWebTokenError ''invalid signature'')
      else if exp c \<le> now then Inl TokenExpiredError
      else Inr c)"

text \<open>
  The compact serialization of a token. \<^verbatim>\<open>JSON.stringify\<close> writes the claims in the order
  they were set (the payload's fields, then \<^verbatim>\<open>iat\<close>, then \<^verbatim>\<open>exp\<close>) and leaves out a field
  that is \<^verbatim>\<open>undefined\<close>.
\<close>

definition dq :: char where
  "dq = CHR 0x22"

definition backslash :: char where
  "backslash = CHR 0x5C"

definition b64 :: "nat \<Rightarrow> char" where
  "b64 n = ''ABCDEFGHIJKLMNOPQRSTUVWXYZabcdefghijklmnopqrstuvwxyz0123456789-_'' ! n"

fun base64url :: "string \<Rightarrow> string" where
  "base64url (a # b # c # r) =
     [b64 (of_char a div 4), b64 ((of_char a mod 4) * 16 + of_char b div 16),
      b64 ((of_char b mod 16) * 4 + of_char c div 64), b64 (of_char c mod 64)] @ base64url r"
| "base64url [a, b] =
     [b64 (of_char a div 4), b64 ((of_char a mod 4) * 16 + of_char b div 16),
      b64 ((of_char b mod 16) * 4)]"
| "base64url [a] = [b64 (of_char a div 4), b64 ((of_char a mod 4) * 16)]"
| "base64url [] = []"

fun digits :: "nat \<Rightarrow> string" where
  "digits n = (if n < 10 then [char_of (48 + n)]
               else digits (n div 10) @ [char_of (48 + n mod 10)])"

definition hex :: "nat \<Rightarrow> char" where
  "hex n = ''0123456789abcdef'' ! n"

definition json_escape :: "char \<Rightarrow> string" where
  "json_escape c =
     (let n = of_char c :: nat in
      if c = dq then [backslash, dq]
      else if c = backslash then [backslash, backslash]
      else if n = 8 then [backslash, CHR ''b'']
      else if n = 9 then [backslash, CHR ''t'']
      else if n = 10 then [backslash, CHR ''n'']
      else if n = 12 then [backslash, CHR ''f'']
      else if n = 13 then [backslash, CHR ''r'']
      else if n < 32
      then [backslash, CHR ''u'', CHR ''0'', CHR ''0'', hex (n div 16), hex (n mod 16)]
      else [c])"

definition json_string :: "string \<Rightarrow> string" where
  "json_string s = dq # concat (map json_escape s) @ [dq]"

definition json_member :: "string \<Rightarrow> string \<Rightarrow> string" where
  "json_member k v = json_string k @ '':'' @ v"

fun commas :: "string list \<Rightarrow> string" where
  "commas [] = []"
| "commas [x] = x"
| "commas (x # y # r) = x @ '','' @ commas (y # r)"

definition json_claims :: "claims \<Rightarrow> string" where
  "json_claims c =
     ''{'' @ commas
       ([json_member ''sub'' (json_string (sub c))]
        @ (case email_claim c of None \<Rightarrow> [] | Some e \<Rightarrow> [json_member ''email'' (json_string e)])
        @ (case roles_claim c of None \<Rightarrow> []
           | Some rs \<Rightarrow> [json_member ''roles'' (''['' @ commas (map json_string rs) @ '']'')])
        @ (case jti c of None \<Rightarrow> [] | Some j \<Rightarrow> [json_member ''jti'' (json_string j)])
        @ [json_member ''iat'' (digits (iat c)), json_member ''exp'' (digits (exp c))])
     @ ''}''"

definition jose_header :: string where
  "jose_header =
     base64url (''{'' @ commas [json_member ''alg'' (json_string ''HS256''),
                               json_member ''typ'' (json_string ''JWT'')] @ ''}'')"

fun compact :: "(string \<Rightarrow> string \<Rightarrow> string) \<Rightarrow> jwt \<Rightarrow> string" where
  "compact h (Malformed s) = s"
| "compact h (Jwt k c) =
     (let m = jose_header @ ''.'' @ base64url (json_claims c)
      in m @ ''.'' @ base64url (h k m))"

text \<open>
  bcrypt expands its key from the input followed by a zero byte, read cyclically for 72
  bytes: nothing of the input beyond its first 72 bytes reaches the digest.
\<close>

definition bcrypt_key :: "string \<Rightarrow> string" where
  "bcrypt_key s = take 72 (concat (replicate 72 (s @ [CHR 0x00])))"

definition bcrypt_hash :: "string \<Rightarrow> nat \<Rightarrow> string \<Rightarrow> bcrypt" where
  "bcrypt_hash s rounds slt = Bcrypt slt rounds (bcrypt_key s)"

definition bcrypt_compare :: "string \<Rightarrow> bcrypt \<Rightarrow> bool" where
  "bcrypt_compare s h = (key h = bcrypt_key s)"

definition random_string :: "world \<Rightarrow> string \<times> world" where
  "random_string w = (entropy w (drawn w), w\<lparr>drawn := Suc (drawn w)\<rparr>)"

text \<open>The Redis commands the client issues; each is logged as it is sent.\<close>

definition live :: "world \<Rightarrow> string \<Rightarrow> redis_value option" where
  "live w k = (case redis w k of
                 None \<Rightarrow> None
               | Some (v, e) \<Rightarrow> if clock w < e then Some v else None)"

definition redis_set :: "world \<Rightarrow> string \<Rightarrow> redis_value \<Rightarrow> nat \<Rightarrow> unit result" where
  "redis_set w k v ttl =
     (let w' = w\<lparr>redis_log := redis_log w @ [SET k v ttl]\<rparr> in
      if \<not> redis_up w then (Inl StoreUnavailable, w')
      else if ttl = 0 then (Inl (ReplyError ''ERR invalid expire time in set''), w')
      else (Inr (), w'\<lparr>redis := (redis w)(k \<mapsto> (v, clock w + ttl))\<rparr>))"

definition redis_get :: "world \<Rightarrow> string \<Rightarrow> redis_value option result" where
  "redis_get w k =
     (let w' = w\<lparr>redis_log := redis_log w @ [GET k]\<rparr> in
      if \<not> redis_up w then (Inl StoreUnavailable, w')
      else (Inr (live w k), w'))"

definition redis_del :: "world \<Rightarrow> string \<Rightarrow> unit result" where
  "redis_del w k =
     (let w' = w\<lparr>redis_log := redis_log w @ [DEL k]\<rparr> in
      if \<not> redis_up w then (Inl StoreUnavailable, w')
      else (Inr (), w'\<lparr>redis := (redis w)(k := None)\<rparr>))"

text \<open>A template literal renders \<^verbatim>\<open>undefined\<close> as the string \<^verbatim>\<open>undefined\<close>.\<close>

definition template :: "string option \<Rightarrow> string" where
  "template s = (case s of None \<Rightarrow> ''undefined'' | Some x \<Rightarrow> x)"

section \<open>TokenService\<close>

definition saveRefreshToken :: "world \<Rightarrow> string \<Rightarrow> redis_value \<Rightarrow> nat option \<Rightarrow> unit result" where
  "saveRefreshToken w userId token ttlSeconds =
     redis_set w (''refresh:'' @ userId) token
       (case ttlSeconds of None \<Rightarrow> 604800 | Some t \<Rightarrow> t)"

definition getRefreshToken :: "world \<Rightarrow> string \<Rightarrow> redis_value option result" where
  "getRefreshToken w userId = redis_get w (''refresh:'' @ userId)"

definition deleteRefreshToken :: "world \<Rightarrow> string \<Rightarrow> unit result" where
  "deleteRefreshToken w userId = redis_del w (''refresh:'' @ userId)"

definition blacklistToken :: "world \<Rightarrow> string \<Rightarrow> nat \<Rightarrow> unit result" where
  "blacklistToken w j ttlSeconds = redis_set w (''blacklist:'' @ j) (Str ''1'') ttlSeconds"

definition isBlacklisted :: "world \<Rightarrow> string option \<Rightarrow> bool result" where
  "isBlacklisted w j =
     (case redis_get w (''blacklist:'' @ template j) of
        (Inl e, w') \<Rightarrow> (Inl e, w')
      | (Inr r, w') \<Rightarrow> (Inr (r \<noteq> None), w'))"

section \<open>UsersService\<close>

text \<open>
  The fields of \<^verbatim>\<open>CreateUserDto\<close> (its file is not part of the sources) are those the
  README's register request shows.
\<close>

record createUserDto =
  dto_email :: string
  dto_password :: string
  dto_firstName :: "string option"
  dto_lastName :: "string option"

definition findByEmail :: "world \<Rightarrow> string \<Rightarrow> user option" where
  "findByEmail w e = find (\<lambda>u. email u = e) (users w)"

definition findById :: "world \<Rightarrow> string \<Rightarrow> user option" where
  "findById w i = find (\<lambda>u. user_id u = i) (users w)"

definition validatePassword :: "string \<Rightarrow> bcrypt \<Rightarrow> bool" where
  "validatePassword plain h = bcrypt_compare plain h"

definition create :: "world \<Rightarrow> createUserDto \<Rightarrow> user result" where
  "create w dto =
     (case findByEmail w (dto_email dto) of
        Some existing \<Rightarrow> (Inl (ConflictException ''Email already registered''), w)
      | None \<Rightarrow>
          (let (slt, w1) = random_string w;
               h = bcrypt_hash (dto_password dto) 12 slt;
               (uuid, w2) = random_string w1;
               u = \<lparr>user_id = uuid, email = dto_email dto, password = h,
                    firstName = dto_firstName dto, lastName = dto_lastName dto,
                    isActive = True, roles = [''user''],
                    createdAt = clock w, updatedAt = clock w\<rparr>
           in (Inr u, w2\<lparr>users := users w2 @ [u]\<rparr>)))"

section \<open>AuthService\<close>

record user_view =
  view_id :: string
  view_email :: string
  view_roles :: "string list"

record token_pair =
  accessToken :: jwt
  refreshToken :: jwt
  user_of :: user_view

record validation =
  valid :: bool
  vpayload :: "claims option"

definition validateUser :: "world \<Rightarrow> string \<Rightarrow> string \<Rightarrow> user option" where
  "validateUser w e pw =
     (case findByEmail w e of
        None \<Rightarrow> None
      | Some u \<Rightarrow> if validatePassword pw (password u) then Some u else None)"

definition generateTokens :: "world \<Rightarrow> user \<Rightarrow> token_pair result" where
  "generateTokens w u =
     (let (j, w1) = random_string w;
          p = \<lparr>sub = user_id u, email_claim = Some (email u), roles_claim = Some (roles u),
               jti = Some j\<rparr>;
          at = jwt_sign (accessSecret (conf w1)) p (accessExpiresIn (conf w1)) (clock w1);
          rt = jwt_sign (refreshSecret (conf w1))
                 \<lparr>sub = user_id u, email_claim = None, roles_claim = None, jti = None\<rparr>
                 (refreshExpiresIn (conf w1)) (clock w1);
          (slt, w2) = random_string w1;
          h = bcrypt_hash (compact (hmac w2) rt) 10 slt
      in case saveRefreshToken w2 (user_id u) (Digest h) None of
           (Inl e, w3) \<Rightarrow> (Inl e, w3)
         | (Inr _, w3) \<Rightarrow>
             (Inr \<lparr>accessToken = at, refreshToken = rt,
                   user_of = \<lparr>view_id = user_id u, view_email = email u,
                              view_roles = roles u\<rparr>\<rparr>, w3))"

definition register :: "world \<Rightarrow> createUserDto \<Rightarrow> token_pair result" where
  "register w dto =
     (case create w dto of
        (Inl e, w') \<Rightarrow> (Inl e, w')
      | (Inr u, w') \<Rightarrow> generateTokens w' u)"

definition login :: "world \<Rightarrow> user \<Rightarrow> token_pair result" where
  "login w u = generateTokens w u"

definition refresh :: "world \<Rightarrow> user \<Rightarrow> token_pair result" where
  "refresh w u = generateTokens w u"

text \<open>
  \<^verbatim>\<open>Promise.all\<close> starts both store calls before awaiting either, so both commands are
  sent; it rejects with the first rejection.
\<close>

definition logout :: "world \<Rightarrow> string \<Rightarrow> string \<Rightarrow> string result" where
  "logout w userId j =
     (let accessTtl = 15 * 60;
          (r1, w1) = blacklistToken w j accessTtl;
          (r2, w2) = deleteRefreshToken w1 userId
      in case r1 of
           Inl e \<Rightarrow> (Inl e, w2)
         | Inr _ \<Rightarrow>
             (case r2 of
                Inl e \<Rightarrow> (Inl e, w2)
              | Inr _ \<Rightarrow> (Inr ''Logged out successfully'', w2)))"

text \<open>The body of the \<^verbatim>\<open>try\<close> block of \<^verbatim>\<open>validateToken\<close>, and the block with its \<^verbatim>\<open>catch\<close>.\<close>

definition validateToken_try :: "world \<Rightarrow> jwt \<Rightarrow> validation result" where
  "validateToken_try w t =
     (case jwt_verify (accessSecret (conf w)) (clock w) t of
        Inl e \<Rightarrow> (Inl e, w)
      | Inr p \<Rightarrow>
          (case isBlacklisted w (jti p) of
             (Inl e, w') \<Rightarrow> (Inl e, w')
           | (Inr blacklisted, w') \<Rightarrow>
               (Inr (if blacklisted then \<lparr>valid = False, vpayload = None\<rparr>
                     else \<lparr>valid = True, vpayload = Some p\<rparr>), w')))"

definition validateToken :: "world \<Rightarrow> jwt \<Rightarrow> validation result" where
  "validateToken w t =
     (case validateToken_try w t of
        (Inl e, w') \<Rightarrow> (Inr \<lparr>valid = False, vpayload = None\<rparr>, w')
      | (Inr r, w') \<Rightarrow> (Inr r, w'))"

section \<open>AuthMicroserviceController\<close>

datatype user_reply = ErrorReply string | UserReply "claims option"

definition validateToken_rpc :: "world \<Rightarrow> jwt \<Rightarrow> validation result" where
  "validateToken_rpc w t = validateToken w t"

definition getUserFromToken :: "world \<Rightarrow> jwt \<Rightarrow> user_reply result" where
  "getUserFromToken w t =
     (case validateToken w t of
        (Inl e, w') \<Rightarrow> (Inl e, w')
      | (Inr r, w') \<Rightarrow>
          (if \<not> valid r then (Inr (ErrorReply ''Invalid or expired token''), w')
           else (Inr (UserReply (vpayload r)), w')))"

section \<open>Passport strategies\<close>

text \<open>
  Both strategies are configured with \<^verbatim>\<open>ignoreExpiration: false\<close> and their secret:
  passport verifies signature and expiry and calls \<^verbatim>\<open>validate\<close> with the decoded
  payload; a token that fails verification is answered with 401.
\<close>

record principal =
  principal_id :: string
  principal_email :: string
  principal_roles :: "string list"
  principal_jti :: "string option"

definition JwtStrategy_validate :: "world \<Rightarrow> claims \<Rightarrow> principal result" where
  "JwtStrategy_validate w p =
     (case isBlacklisted w (jti p) of
        (Inl e, w') \<Rightarrow> (Inl e, w')
      | (Inr blacklisted, w') \<Rightarrow>
          if blacklisted then (Inl (UnauthorizedException ''Token has been revoked''), w')
          else (case findById w' (sub p) of
                  None \<Rightarrow> (Inl (UnauthorizedException ''User not found or inactive''), w')
                | Some u \<Rightarrow>
                    if \<not> isActive u
                    then (Inl (UnauthorizedException ''User not found or inactive''), w')
                    else (Inr \<lparr>principal_id = user_id u, principal_email = email u,
                               principal_roles = roles u, principal_jti = jti p\<rparr>, w')))"

definition JwtStrategy :: "world \<Rightarrow> jwt \<Rightarrow> principal result" where
  "JwtStrategy w t =
     (case jwt_verify (accessSecret (conf w)) (clock w) t of
        Inl e \<Rightarrow> (Inl (UnauthorizedException ''Unauthorized''), w)
      | Inr p \<Rightarrow> JwtStrategy_validate w p)"

text \<open>A stored value is falsy when it is absent or the empty string.\<close>

definition falsy :: "redis_value option \<Rightarrow> bool" where
  "falsy v = (v = None \<or> v = Some (Str []))"

text \<open>
  \<^verbatim>\<open>bcrypt.compare\<close> answers false for a stored string that has not the 60 characters of
  a digest, and rejects with an error for one of 60 characters that is no digest.
\<close>

definition compare_stored :: "string \<Rightarrow> redis_value \<Rightarrow> exn + bool" where
  "compare_stored incoming stored =
     (case stored of
        Digest h \<Rightarrow> Inr (bcrypt_compare incoming h)
      | Str s \<Rightarrow> if length s = 60 then Inl (Error ''Invalid salt version'') else Inr False)"

definition JwtRefreshStrategy_validate :: "world \<Rightarrow> jwt \<Rightarrow> claims \<Rightarrow> user result" where
  "JwtRefreshStrategy_validate w incoming p =
     (case getRefreshToken w (sub p) of
        (Inl e, w') \<Rightarrow> (Inl e, w')
      | (Inr stored, w') \<Rightarrow>
          if falsy stored
          then (Inl (UnauthorizedException ''Refresh token expired or not found''), w')
          else (case compare_stored (compact (hmac w') incoming) (the stored) of
                  Inl e \<Rightarrow> (Inl e, w')
                | Inr isValid \<Rightarrow>
                    if \<not> isValid
                    then (Inl (UnauthorizedException ''Invalid refresh token''), w')
                    else (case findById w' (sub p) of
                            None \<Rightarrow> (Inl (UnauthorizedException ''User not found''), w')
                          | Some u \<Rightarrow> (Inr u, w'))))"

definition JwtRefreshStrategy :: "world \<Rightarrow> jwt \<Rightarrow> user result" where
  "JwtRefreshStrategy w t =
     (case jwt_verify (refreshSecret (conf w)) (clock w) t of
        Inl e \<Rightarrow> (Inl (UnauthorizedException ''Unauthorized''), w)
      | Inr p \<Rightarrow> JwtRefreshStrategy_validate w t p)"

text \<open>
  Modelled from the spec: the route of \<^verbatim>\<open>auth.controller.ts\<close>, which is not among the
  sources. The spec's \<^verbatim>\<open>refresh(refresh_token)\<close> verifies the refresh token, compares it
  with the stored record and issues a new pair: the \<^verbatim>\<open>jwt-refresh\<close> strategy guards the
  route and the user it returns is handed to \<^verbatim>\<open>AuthService.refresh\<close>.
\<close>

definition refresh_request :: "world \<Rightarrow> jwt \<Rightarrow> token_pair result" where
  "refresh_request w rt =
     (case JwtRefreshStrategy w rt of
        (Inl e, w') \<Rightarrow> (Inl e, w')
      | (Inr u, w') \<Rightarrow> refresh w' u)"

section \<open>Observations and a concrete scenario\<close>

text \<open>The two tokens \<open>generateTokens\<close> signs for a user in a state.\<close>

definition access_token_of :: "world \<Rightarrow> user \<Rightarrow> jwt" where
  "access_token_of w u = jwt_sign (accessSecret (conf w))
       \<lparr>sub = user_id u, email_claim = Some (email u), roles_claim = Some (roles u),
        jti = Some (entropy w (drawn w))\<rparr> (accessExpiresIn (conf w)) (clock w)"

definition refresh_token_of :: "world \<Rightarrow> user \<Rightarrow> jwt" where
  "refresh_token_of w u = jwt_sign (refreshSecret (conf w))
       \<lparr>sub = user_id u, email_claim = None, roles_claim = None, jti = None\<rparr>
       (refreshExpiresIn (conf w)) (clock w)"

text \<open>
  The claims of a refresh token, and the 72 bytes bcrypt reads from the refresh token of a
  subject whose id has 19 characters or more: the header, the dot and the first 35
  characters of the encoded claims, which hold nothing but the start of the subject id.
\<close>

definition refresh_claims :: "string \<Rightarrow> nat \<Rightarrow> nat \<Rightarrow> claims" where
  "refresh_claims i a e =
     \<lparr>sub = i, email_claim = None, roles_claim = None, jti = None, iat = a, exp = e\<rparr>"

definition subject_key :: "string \<Rightarrow> string" where
  "subject_key i =
     jose_header @ ''.''
       @ take 35 (base64url (''{'' @ json_string ''sub'' @ '':'' @ [dq] @ take 19 i))"

definition invalid :: validation where
  "invalid = \<lparr>valid = False, vpayload = None\<rparr>"

text \<open>
  Alice is active, Bob has been deactivated. At second 1000 the store is empty; the
  access lifetime is the default 900 seconds, the refresh lifetime 604800.
\<close>

definition alice :: user where
  "alice = \<lparr>user_id = ''u1'', email = ''alice@example.com'',
     password = Bcrypt ''s1'' 12 ''password123'',
     firstName = Some ''Alice'', lastName = None, isActive = True, roles = [''user''],
     createdAt = 0, updatedAt = 0\<rparr>"

definition bob :: user where
  "bob = \<lparr>user_id = ''u2'', email = ''bob@example.com'',
     password = Bcrypt ''s2'' 12 ''hunter2'',
     firstName = None, lastName = None, isActive = False, roles = [''user'', ''admin''],
     createdAt = 0, updatedAt = 0\<rparr>"

definition world0 :: world where
  "world0 = \<lparr>clock = 1000,
     conf = \<lparr>accessSecret = ''access-secret'', accessExpiresIn = 900,
             refreshSecret = ''refresh-secret'', refreshExpiresIn = 604800\<rparr>,
     users = [alice, bob], redis_up = True, redis = (\<lambda>k. None), redis_log = [],
     entropy = (\<lambda>n. replicate (Suc n) CHR ''a''), drawn = 0,
     hmac = (\<lambda>k m. ''HS256'' @ k @ m)\<rparr>"

definition at0 :: jwt where
  "at0 = Jwt ''access-secret''
     \<lparr>sub = ''u1'', email_claim = Some ''alice@example.com'', roles_claim = Some [''user''],
      jti = Some ''a'', iat = 1000, exp = 1900\<rparr>"

definition rt0 :: jwt where
  "rt0 = Jwt ''refresh-secret''
     \<lparr>sub = ''u1'', email_claim = None, roles_claim = None, jti = None,
      iat = 1000, exp = 605800\<rparr>"

definition at_bob :: jwt where
  "at_bob = Jwt ''access-secret''
     \<lparr>sub = ''u2'', email_claim = Some ''bob@example.com'',
      roles_claim = Some [''user'', ''admin''], jti = Some ''a'', iat = 1000, exp = 1900\<rparr>"

definition world1 :: world where
  "world1 = snd (login world0 alice)"

text \<open>
  Carol's id is a uuid, as the directory generates them. \<open>rt_carol\<close> is the refresh token
  her login at second 1000 issues.
\<close>

definition carol :: user where
  "carol = \<lparr>user_id = ''7c9e6679-7425-40de-944b-e07fc1f90ae7'', email = ''carol@example.com'',
     password = Bcrypt ''s3'' 12 ''correct horse'',
     firstName = Some ''Carol'', lastName = None, isActive = True, roles = [''user''],
     createdAt = 0, updatedAt = 0\<rparr>"

definition world_carol :: world where
  "world_carol = world0\<lparr>users := [alice, bob, carol]\<rparr>"

definition rt_carol :: jwt where
  "rt_carol = Jwt ''refresh-secret''
     (refresh_claims ''7c9e6679-7425-40de-944b-e07fc1f90ae7'' 1000 605800)"

text \<open>The same service configured with an access lifetime of one hour.\<close>

definition world_hour :: world where
  "world_hour = world0\<lparr>conf := (conf world0)\<lparr>accessExpiresIn := 3600\<rparr>\<rparr>"

definition at_hour :: jwt where
  "at_hour = Jwt ''access-secret''
     \<lparr>sub = ''u1'', email_claim = Some ''alice@example.com'', roles_claim = Some [''user''],
      jti = Some ''a'', iat = 1000, exp = 4600\<rparr>"

section \<open>The bytes bcrypt reads from a refresh token\<close>

declare digits.simps [simp del]

declare compact.simps [simp del]


lemma base64url_append:
  "length xs mod 3 = 0 \<Longrightarrow> base64url (xs @ ys) = base64url xs @ base64url ys"
  by (induction xs rule: base64url.induct) auto

lemma length_base64url: "length (base64url xs) = (4 * length xs + 2) div 3"
  by (induction xs rule: base64url.induct) auto

lemma length_jose_header: "length jose_header = 36"
  by (simp add: jose_header_def length_base64url json_member_def json_string_def
      json_escape_def dq_def backslash_def)

lemma bcrypt_key_long: "72 \<le> length s \<Longrightarrow> bcrypt_key s = take 72 s"
proof -
  assume l: "72 \<le> length s"
  have "concat (replicate 72 (s @ [CHR 0x00])) =
      (s @ [CHR 0x00]) @ concat (replicate 71 (s @ [CHR 0x00]))"
    by (simp add: numeral_eq_Suc)
  with l show ?thesis by (simp add: bcrypt_key_def)
qed

lemma take_72_dotted:
  "length H = 36 \<Longrightarrow> 35 \<le> length B \<Longrightarrow> take 72 (H @ ''.'' @ B @ R) = H @ ''.'' @ take 35 B"
  by (simp add: take_Cons')

lemma length_dotted:
  "length H = 36 \<Longrightarrow> length B = 36 \<Longrightarrow> 72 \<le> length (H @ ''.'' @ B @ R)"
  by simp

lemma json_refresh_claims:
  assumes "concat (map json_escape i) = i"
  shows "json_claims (refresh_claims i a e) =
     (''{'' @ json_string ''sub'' @ '':'' @ [dq] @ take 19 i)
     @ (drop 19 i @ [dq] @ '','' @ json_member ''iat'' (digits a) @ '',''
          @ json_member ''exp'' (digits e) @ ''}'')"
  using assms
  by (simp add: json_claims_def refresh_claims_def json_member_def json_string_def)

text \<open>
  Every refresh token of a subject with a plain id of 19 characters or more gives bcrypt
  the same key bytes, whenever it was issued and whatever its signature.
\<close>

lemma bcrypt_key_refresh:
  assumes safe: "concat (map json_escape i) = i" and long: "19 \<le> length i"
  shows "bcrypt_key (compact h (Jwt k (refresh_claims i a e))) = subject_key i"
proof -
  let ?p = "''{'' @ json_string ''sub'' @ '':'' @ [dq] @ take 19 i"
  let ?r = "drop 19 i @ [dq] @ '','' @ json_member ''iat'' (digits a) @ '',''
          @ json_member ''exp'' (digits e) @ ''}''"
  have lp: "length ?p = 27" using long
    by (simp add: json_string_def json_escape_def dq_def backslash_def)
  then have m3: "length ?p mod 3 = 0" by simp
  have "length (base64url ?p) = (4 * 27 + 2) div 3" by (simp only: length_base64url lp)
  then have lb: "length (base64url ?p) = 36" by simp
  then have lb35: "35 \<le> length (base64url ?p)" by (simp only:)
  have b: "base64url (json_claims (refresh_claims i a e)) = base64url ?p @ base64url ?r"
    by (simp only: json_refresh_claims[OF safe] base64url_append[OF m3])
  have c: "compact h (Jwt k (refresh_claims i a e)) =
      jose_header @ ''.'' @ base64url ?p @ base64url ?r @ ''.''
        @ base64url (h k (jose_header @ ''.'' @ base64url ?p @ base64url ?r))"
    by (simp add: b Let_def compact.simps)
  have "72 \<le> length (compact h (Jwt k (refresh_claims i a e)))"
    unfolding c by (rule length_dotted[OF length_jose_header lb])
  from bcrypt_key_long[OF this]
  have "bcrypt_key (compact h (Jwt k (refresh_claims i a e))) =
      take 72 (jose_header @ ''.'' @ base64url ?p @ base64url ?r @ ''.''
        @ base64url (h k (jose_header @ ''.'' @ base64url ?p @ base64url ?r)))"
    unfolding c .
  also have "\<dots> = jose_header @ ''.'' @ take 35 (base64url ?p)"
    by (rule take_72_dotted[OF length_jose_header lb35])
  finally show ?thesis unfolding subject_key_def .
qed

lemma carol_id_plain:
  "concat (map json_escape ''7c9e6679-7425-40de-944b-e07fc1f90ae7'')
     = ''7c9e6679-7425-40de-944b-e07fc1f90ae7''"
  by (simp add: json_escape_def dq_def backslash_def)

lemma bcrypt_key_carol:
  "bcrypt_key (compact h (Jwt k (refresh_claims ''7c9e6679-7425-40de-944b-e07fc1f90ae7'' a e)))
     = subject_key ''7c9e6679-7425-40de-944b-e07fc1f90ae7''"
  by (rule bcrypt_key_refresh[OF carol_id_plain]) simp

section \<open>What each operation computes\<close>

lemma findById_user_id: "findById w i = Some u \<Longrightarrow> user_id u = i"
  by (auto simp: findById_def find_Some_iff)

lemma live_log [simp]: "live (w\<lparr>redis_log := l\<rparr>) k = live w k"
  by (simp add: live_def split: option.splits)

lemma findById_log [simp]: "findById (w\<lparr>redis_log := l\<rparr>) i = findById w i"
  by (simp add: findById_def)

lemma refresh_token_of_log [simp]:
  "refresh_token_of (w\<lparr>redis_log := l\<rparr>) u = refresh_token_of w u"
  by (simp add: refresh_token_of_def)

lemma isBlacklisted_eq:
  "isBlacklisted w j =
     (if redis_up w then Inr (live w (''blacklist:'' @ template j) \<noteq> None)
      else Inl StoreUnavailable,
      w\<lparr>redis_log := redis_log w @ [GET (''blacklist:'' @ template j)]\<rparr>)"
  by (simp add: isBlacklisted_def redis_get_def Let_def)

lemma getRefreshToken_eq:
  "getRefreshToken w i =
     (if redis_up w then Inr (live w (''refresh:'' @ i)) else Inl StoreUnavailable,
      w\<lparr>redis_log := redis_log w @ [GET (''refresh:'' @ i)]\<rparr>)"
  by (simp add: getRefreshToken_def redis_get_def Let_def)

lemma validateToken_eq:
  "validateToken w t =
     (case jwt_verify (accessSecret (conf w)) (clock w) t of
        Inl e \<Rightarrow> (Inr invalid, w)
      | Inr p \<Rightarrow>
          (Inr (if redis_up w \<and> live w (''blacklist:'' @ template (jti p)) = None
                then \<lparr>valid = True, vpayload = Some p\<rparr>
                else invalid),
           w\<lparr>redis_log := redis_log w @ [GET (''blacklist:'' @ template (jti p))]\<rparr>))"
  by (simp add: validateToken_def validateToken_try_def isBlacklisted_eq invalid_def
      split: sum.splits)

lemma getUserFromToken_eq:
  "getUserFromToken w t =
     (case jwt_verify (accessSecret (conf w)) (clock w) t of
        Inl e \<Rightarrow> (Inr (ErrorReply ''Invalid or expired token''), w)
      | Inr p \<Rightarrow>
          (Inr (if redis_up w \<and> live w (''blacklist:'' @ template (jti p)) = None
                then UserReply (Some p)
                else ErrorReply ''Invalid or expired token''),
           w\<lparr>redis_log := redis_log w @ [GET (''blacklist:'' @ template (jti p))]\<rparr>))"
  by (simp add: getUserFromToken_def validateToken_eq invalid_def split: sum.splits)

lemma logout_eq:
  "logout w userId j =
     (if redis_up w then Inr ''Logged out successfully'' else Inl StoreUnavailable,
      w\<lparr>redis_log := redis_log w @
          [SET (''blacklist:'' @ j) (Str ''1'') 900, DEL (''refresh:'' @ userId)],
        redis := if redis_up w
                 then ((redis w)(''blacklist:'' @ j \<mapsto> (Str ''1'', clock w + 900)))
                        (''refresh:'' @ userId := None)
                 else redis w\<rparr>)"
  by (simp add: logout_def blacklistToken_def deleteRefreshToken_def redis_set_def
      redis_del_def Let_def)

lemma generateTokens_eq:
  "generateTokens w u =
     (if redis_up w
      then Inr \<lparr>accessToken = access_token_of w u, refreshToken = refresh_token_of w u,
                user_of = \<lparr>view_id = user_id u, view_email = email u, view_roles = roles u\<rparr>\<rparr>
      else Inl StoreUnavailable,
      w\<lparr>drawn := Suc (Suc (drawn w)),
        redis_log := redis_log w @
          [SET (''refresh:'' @ user_id u)
             (Digest (Bcrypt (entropy w (Suc (drawn w))) 10
                (bcrypt_key (compact (hmac w) (refresh_token_of w u))))) 604800],
        redis := if redis_up w
                 then (redis w)(''refresh:'' @ user_id u \<mapsto>
                        (Digest (Bcrypt (entropy w (Suc (drawn w))) 10
                           (bcrypt_key (compact (hmac w) (refresh_token_of w u)))),
                         clock w + 604800))
                 else redis w\<rparr>)"
  by (simp add: generateTokens_def random_string_def saveRefreshToken_def redis_set_def
      bcrypt_hash_def access_token_of_def refresh_token_of_def Let_def)

lemma generateTokens_ok:
  "fst (generateTokens w u) = Inr out \<Longrightarrow>
     redis_up w \<and> accessToken out = access_token_of w u
     \<and> refreshToken out = refresh_token_of w u"
  by (auto simp: generateTokens_eq split: if_splits)

lemma live_generateTokens:
  "live (snd (generateTokens w u)) k =
     (if redis_up w \<and> k = ''refresh:'' @ user_id u
      then Some (Digest (Bcrypt (entropy w (Suc (drawn w))) 10
                  (bcrypt_key (compact (hmac w) (refresh_token_of w u)))))
      else live w k)"
  by (simp add: generateTokens_eq live_def split: option.splits)

lemma JwtStrategy_eq:
  "JwtStrategy w t =
     (case jwt_verify (accessSecret (conf w)) (clock w) t of
        Inl e \<Rightarrow> (Inl (UnauthorizedException ''Unauthorized''), w)
      | Inr p \<Rightarrow>
         (if \<not> redis_up w then Inl StoreUnavailable
          else if live w (''blacklist:'' @ template (jti p)) \<noteq> None
          then Inl (UnauthorizedException ''Token has been revoked'')
          else (case findById w (sub p) of
                  None \<Rightarrow> Inl (UnauthorizedException ''User not found or inactive'')
                | Some u \<Rightarrow>
                    if \<not> isActive u
                    then Inl (UnauthorizedException ''User not found or inactive'')
                    else Inr \<lparr>principal_id = user_id u, principal_email = email u,
                               principal_roles = roles u, principal_jti = jti p\<rparr>),
          w\<lparr>redis_log := redis_log w @ [GET (''blacklist:'' @ template (jti p))]\<rparr>))"
  by (simp add: JwtStrategy_def JwtStrategy_validate_def isBlacklisted_eq
      split: sum.splits option.splits)

lemma JwtRefreshStrategy_eq:
  "JwtRefreshStrategy w t =
     (case jwt_verify (refreshSecret (conf w)) (clock w) t of
        Inl e \<Rightarrow> (Inl (UnauthorizedException ''Unauthorized''), w)
      | Inr p \<Rightarrow>
         (if \<not> redis_up w then Inl StoreUnavailable
          else if falsy (live w (''refresh:'' @ sub p))
          then Inl (UnauthorizedException ''Refresh token expired or not found'')
          else (case compare_stored (compact (hmac w) t) (the (live w (''refresh:'' @ sub p))) of
                  Inl e \<Rightarrow> Inl e
                | Inr isValid \<Rightarrow>
                    if \<not> isValid then Inl (UnauthorizedException ''Invalid refresh token'')
                    else (case findById w (sub p) of
                            None \<Rightarrow> Inl (UnauthorizedException ''User not found'')
                          | Some u \<Rightarrow> Inr u)),
          w\<lparr>redis_log := redis_log w @ [GET (''refresh:'' @ sub p)]\<rparr>))"
  by (simp add: JwtRefreshStrategy_def JwtRefreshStrategy_validate_def getRefreshToken_eq
      split: sum.splits option.splits)

lemma refresh_request_ok:
  assumes "fst (refresh_request w rt) = Inr out"
  shows "\<exists>c u. rt = Jwt (refreshSecret (conf w)) c \<and> clock w < exp c \<and> redis_up w
            \<and> findById w (sub c) = Some u \<and> user_id u = sub c
            \<and> refresh_request w rt =
                generateTokens (w\<lparr>redis_log := redis_log w @ [GET (''refresh:'' @ sub c)]\<rparr>) u"
proof (cases rt)
  case (Malformed s)
  with assms show ?thesis
    by (simp add: refresh_request_def JwtRefreshStrategy_eq)
next
  case (Jwt k c)
  with assms show ?thesis
    by (auto simp: refresh_request_def JwtRefreshStrategy_eq refresh_def generateTokens_eq
        dest: findById_user_id split: if_splits option.splits sum.splits)
qed

lemmas scenario_defs =
  world0_def world1_def alice_def bob_def at0_def rt0_def at_bob_def
  carol_def world_carol_def rt_carol_def world_hour_def at_hour_def refresh_claims_def
  access_token_of_def refresh_token_of_def jwt_sign_def

lemmas run_defs =
  login_def refresh_def generateTokens_eq refresh_request_def JwtRefreshStrategy_eq
  JwtStrategy_eq validateToken_eq getUserFromToken_eq logout_eq advance_def live_def
  falsy_def compare_stored_def bcrypt_compare_def findById_def template_def invalid_def

lemma login_world0:
  "fst (login world0 alice) =
     Inr \<lparr>accessToken = at0, refreshToken = rt0,
          user_of = \<lparr>view_id = ''u1'', view_email = ''alice@example.com'',
                     view_roles = [''user'']\<rparr>\<rparr>"
  by (simp add: run_defs scenario_defs)

section \<open>Logout and revocation\<close>

text \<open>
  C6. Logout is idempotent: with the store reachable, calling \<open>logout\<close> twice with the
  same arguments succeeds both times, and the second call leaves the state of the first
  as it is (every key, value and expiry of the store, and the clock): it only adds its two
  commands to the client's log. When \<open>d\<close> seconds pass between the two calls, the store
  after the second is the store a single call at that later second leaves.
\<close>

theorem logout_idempotent:
  assumes "redis_up w"
  shows "fst (logout w userId j) = Inr ''Logged out successfully''
     \<and> fst (logout (snd (logout w userId j)) userId j) = Inr ''Logged out successfully''
     \<and> snd (logout (snd (logout w userId j)) userId j) =
         (snd (logout w userId j))\<lparr>redis_log := redis_log (snd (logout w userId j)) @
            [SET (''blacklist:'' @ j) (Str ''1'') 900, DEL (''refresh:'' @ userId)]\<rparr>
     \<and> fst (logout (advance d (snd (logout w userId j))) userId j)
         = Inr ''Logged out successfully''
     \<and> redis (snd (logout (advance d (snd (logout w userId j))) userId j))
         = redis (snd (logout (advance d w) userId j))"
proof (intro conjI)
  show "snd (logout (snd (logout w userId j)) userId j) =
         (snd (logout w userId j))\<lparr>redis_log := redis_log (snd (logout w userId j)) @
            [SET (''blacklist:'' @ j) (Str ''1'') 900, DEL (''refresh:'' @ userId)]\<rparr>"
    by (rule world.equality) (simp_all add: logout_eq assms fun_eq_iff)
  show "redis (snd (logout (advance d (snd (logout w userId j))) userId j))
         = redis (snd (logout (advance d w) userId j))"
    by (simp add: logout_eq assms advance_def fun_eq_iff)
qed (simp_all add: logout_eq assms advance_def)

theorem logout_idempotent_witness:
  "redis_up world1
   \<and> fst (logout world1 ''u1'' ''a'') = Inr ''Logged out successfully''
   \<and> fst (logout (snd (logout world1 ''u1'' ''a'')) ''u1'' ''a'') = Inr ''Logged out successfully''
   \<and> redis (snd (logout (snd (logout world1 ''u1'' ''a'')) ''u1'' ''a''))
       = redis (snd (logout world1 ''u1'' ''a''))
   \<and> redis (snd (logout world1 ''u1'' ''a'')) ''blacklist:a'' = Some (Str ''1'', 1900)
   \<and> redis (snd (logout world1 ''u1'' ''a'')) ''refresh:u1'' = None"
proof -
  have up: "redis_up world1" by (simp add: run_defs scenario_defs)
  from logout_idempotent[OF up, of "''u1''" "''a''" 0]
  have "redis (snd (logout (snd (logout world1 ''u1'' ''a'')) ''u1'' ''a''))
       = redis (snd (logout world1 ''u1'' ''a''))"
    by simp
  moreover have "redis (snd (logout world1 ''u1'' ''a'')) ''blacklist:a'' = Some (Str ''1'', 1900)"
    "redis (snd (logout world1 ''u1'' ''a'')) ''refresh:u1'' = None"
    by (simp_all add: run_defs scenario_defs)
  ultimately show ?thesis using up logout_idempotent[OF up, of "''u1''" "''a''" 0] by simp
qed

text \<open>
  C2. Revocation precedence: once \<open>logout\<close> has succeeded for a token id, \<open>validateToken\<close>
  answers invalid for every token carrying that id, whatever its signature and expiry,
  in the state \<open>logout\<close> leaves and \<open>d\<close> seconds later for as long as the revocation entry
  lives (\<open>d < 900\<close>); a token that expires within those 900 seconds is never valid again.
\<close>

theorem revocation_precedence:
  assumes "fst (logout w userId tid) = Inr m" and "jti c = Some tid"
  shows "fst (validateToken (snd (logout w userId tid)) (Jwt k c)) = Inr invalid
     \<and> (\<forall>d. d < 900 \<or> exp c \<le> clock w + 900 \<longrightarrow>
           fst (validateToken (advance d (snd (logout w userId tid))) (Jwt k c)) = Inr invalid)"
  using assms
  by (auto simp: logout_eq validateToken_eq advance_def live_def template_def split: if_splits)

text \<open>
  Alice's token is valid at second 1000 and ten seconds later; after her logout at 1000 it
  is invalid at once and ten seconds later, though it is signed with the access secret and
  expires at 1900.
\<close>

theorem revocation_precedence_witness:
  "jwt_verify (accessSecret (conf world1)) (clock world1 + 10) at0 = Inr (signed_claims at0)
   \<and> fst (validateToken world1 at0) = Inr \<lparr>valid = True, vpayload = Some (signed_claims at0)\<rparr>
   \<and> fst (validateToken (advance 10 world1) at0)
       = Inr \<lparr>valid = True, vpayload = Some (signed_claims at0)\<rparr>
   \<and> fst (logout world1 ''u1'' ''a'') = Inr ''Logged out successfully''
   \<and> fst (validateToken (snd (logout world1 ''u1'' ''a'')) at0) = Inr invalid
   \<and> fst (validateToken (advance 10 (snd (logout world1 ''u1'' ''a''))) at0) = Inr invalid"
proof -
  let ?c = "\<lparr>sub = ''u1'', email_claim = Some ''alice@example.com'',
      roles_claim = Some [''user''], jti = Some ''a'', iat = 1000, exp = 1900\<rparr>"
  have ok: "fst (logout world1 ''u1'' ''a'') = Inr ''Logged out successfully''"
    by (simp add: run_defs scenario_defs)
  have tid: "jti ?c = Some ''a''"
    by simp
  from revocation_precedence[OF ok tid, of "''access-secret''"]
  have now: "fst (validateToken (snd (logout world1 ''u1'' ''a'')) at0) = Inr invalid"
    and all: "\<forall>d. d < 900 \<or> exp ?c \<le> clock world1 + 900 \<longrightarrow>
           fst (validateToken (advance d (snd (logout world1 ''u1'' ''a''))) at0) = Inr invalid"
    by (simp_all add: at0_def)
  from all have later:
    "fst (validateToken (advance 10 (snd (logout world1 ''u1'' ''a''))) at0) = Inr invalid"
    by simp
  have "jwt_verify (accessSecret (conf world1)) (clock world1 + 10) at0
      = Inr (signed_claims at0)"
    "fst (validateToken world1 at0)
      = Inr \<lparr>valid = True, vpayload = Some (signed_claims at0)\<rparr>"
    "fst (validateToken (advance 10 world1) at0)
      = Inr \<lparr>valid = True, vpayload = Some (signed_claims at0)\<rparr>"
    by (simp_all add: run_defs scenario_defs)
  with ok now later show ?thesis by simp
qed

text \<open>
  The claim as stated fails for a token that outlives the entry. With an access lifetime
  of one hour, Alice's token issued at second 1000 expires at 4600; after her logout at
  1000 it is invalid until 1899 and valid again from 1900 on, unexpired and with its
  signature intact.
\<close>

theorem revocation_lapses_counterexample:
  "accessToken (projr (fst (login world_hour alice))) = at_hour
   \<and> jti (signed_claims at_hour) = Some ''a''
   \<and> fst (logout (snd (login world_hour alice)) ''u1'' ''a'') = Inr ''Logged out successfully''
   \<and> jwt_verify (accessSecret (conf world_hour)) (clock world_hour + 900) at_hour
       = Inr (signed_claims at_hour)
   \<and> fst (validateToken (advance 899 (snd (logout (snd (login world_hour alice)) ''u1'' ''a'')))
           at_hour) = Inr invalid
   \<and> fst (validateToken (advance 900 (snd (logout (snd (login world_hour alice)) ''u1'' ''a'')))
           at_hour) = Inr \<lparr>valid = True, vpayload = Some (signed_claims at_hour)\<rparr>"
  by (simp add: run_defs scenario_defs)

section \<open>Validation\<close>

text \<open>
  C5. The remote validation operations never throw: for every token and every state,
  \<open>validateToken\<close> (as the service and as the message handler) and \<open>getUserFromToken\<close> return
  a reply; a malformed token is answered invalid (resp. with the error reply), and when
  the store is unreachable the answer is invalid (resp. the error reply), never valid.
\<close>

theorem remote_validation_never_throws:
  "(\<exists>r. fst (validateToken w t) = Inr r)
   \<and> (\<exists>r. fst (validateToken_rpc w t) = Inr r)
   \<and> (\<exists>r. fst (getUserFromToken w t) = Inr r)
   \<and> fst (validateToken w (Malformed s)) = Inr invalid
   \<and> fst (getUserFromToken w (Malformed s)) = Inr (ErrorReply ''Invalid or expired token'')
   \<and> (\<not> redis_up w \<longrightarrow>
        fst (validateToken w t) = Inr invalid
        \<and> fst (validateToken_rpc w t) = Inr invalid
        \<and> fst (getUserFromToken w t) = Inr (ErrorReply ''Invalid or expired token''))"
  by (simp add: validateToken_eq getUserFromToken_eq validateToken_rpc_def split: sum.splits)

theorem remote_validation_never_throws_witness:
  "\<not> redis_up (world1\<lparr>redis_up := False\<rparr>)
   \<and> fst (validateToken world1 at0) = Inr \<lparr>valid = True, vpayload = Some (signed_claims at0)\<rparr>
   \<and> fst (validateToken (world1\<lparr>redis_up := False\<rparr>) at0) = Inr invalid
   \<and> fst (validateToken_rpc (world1\<lparr>redis_up := False\<rparr>) at0) = Inr invalid
   \<and> fst (getUserFromToken (world1\<lparr>redis_up := False\<rparr>) at0)
       = Inr (ErrorReply ''Invalid or expired token'')"
proof -
  have down: "\<not> redis_up (world1\<lparr>redis_up := False\<rparr>)" by simp
  have "fst (validateToken world1 at0) = Inr \<lparr>valid = True, vpayload = Some (signed_claims at0)\<rparr>"
    by (simp add: run_defs scenario_defs)
  then show ?thesis
    using down remote_validation_never_throws[of "world1\<lparr>redis_up := False\<rparr>" at0 "[]"]
    by simp
qed

text \<open>
  C8. Validation short-circuits before the store: when verification of the signature and
  the expiry fails, \<open>validateToken\<close> answers invalid and leaves the state as it was, so the
  client has sent no command; when verification succeeds it sends exactly one command,
  the lookup of the token id in the revocation set.
\<close>

theorem validation_short_circuits:
  "(jwt_verify (accessSecret (conf w)) (clock w) t = Inl e \<longrightarrow>
      validateToken w t = (Inr invalid, w))
   \<and> (jwt_verify (accessSecret (conf w)) (clock w) t = Inr p \<longrightarrow>
      redis_log (snd (validateToken w t)) =
        redis_log w @ [GET (''blacklist:'' @ template (jti p))])"
  by (simp add: validateToken_eq)

theorem validation_short_circuits_witness:
  "jwt_verify (accessSecret (conf (advance 900 world1))) (clock (advance 900 world1)) at0
     = Inl TokenExpiredError
   \<and> validateToken (advance 900 world1) at0 = (Inr invalid, advance 900 world1)
   \<and> jwt_verify (accessSecret (conf world1)) (clock world1) at0 = Inr (signed_claims at0)
   \<and> redis_log (snd (validateToken world1 at0)) = redis_log world1 @ [GET ''blacklist:a'']"
proof -
  have e: "jwt_verify (accessSecret (conf (advance 900 world1))) (clock (advance 900 world1)) at0
     = Inl TokenExpiredError"
    by (simp add: run_defs scenario_defs)
  have p: "jwt_verify (accessSecret (conf world1)) (clock world1) at0 = Inr (signed_claims at0)"
    by (simp add: run_defs scenario_defs)
  have j: "template (jti (signed_claims at0)) = ''a''"
    by (simp add: template_def at0_def)
  show ?thesis
    using e p j validation_short_circuits[of "advance 900 world1" at0 TokenExpiredError "signed_claims at0"]
      validation_short_circuits[of world1 at0 TokenExpiredError "signed_claims at0"]
    by simp
qed

text \<open>
  C7. Round trip: when issuance succeeds for a subject, the access lifetime is positive
  and the fresh token id is not in the revocation set, \<open>validateToken\<close> on the access token
  just issued is valid and returns the claims signed into it, whose subject, email and
  roles are the subject's id, email and roles.
\<close>

theorem issue_validate_roundtrip:
  assumes "fst (generateTokens w u) = Inr out" and "0 < accessExpiresIn (conf w)"
    and "live w (''blacklist:'' @ entropy w (drawn w)) = None"
  shows "fst (validateToken (snd (generateTokens w u)) (accessToken out)) =
           Inr \<lparr>valid = True, vpayload = Some (signed_claims (accessToken out))\<rparr>
         \<and> sub (signed_claims (accessToken out)) = user_id u
         \<and> email_claim (signed_claims (accessToken out)) = Some (email u)
         \<and> roles_claim (signed_claims (accessToken out)) = Some (roles u)"
  using assms
  by (auto simp: generateTokens_eq validateToken_eq access_token_of_def jwt_sign_def live_def
      template_def split: if_splits option.splits)

theorem issue_validate_roundtrip_witness:
  "fst (generateTokens world0 alice) = Inr (projr (fst (generateTokens world0 alice)))
   \<and> accessToken (projr (fst (generateTokens world0 alice))) = at0
   \<and> fst (validateToken (snd (generateTokens world0 alice)) at0) =
           Inr \<lparr>valid = True, vpayload = Some (signed_claims at0)\<rparr>
   \<and> sub (signed_claims at0) = ''u1''
   \<and> email_claim (signed_claims at0) = Some ''alice@example.com''
   \<and> roles_claim (signed_claims at0) = Some [''user'']"
proof -
  have ok: "fst (generateTokens world0 alice) = Inr (projr (fst (generateTokens world0 alice)))"
    by (simp add: run_defs scenario_defs)
  have at: "accessToken (projr (fst (generateTokens world0 alice))) = at0"
    by (simp add: run_defs scenario_defs)
  have ttl: "0 < accessExpiresIn (conf world0)" by (simp add: world0_def)
  have fresh: "live world0 (''blacklist:'' @ entropy world0 (drawn world0)) = None"
    by (simp add: live_def world0_def)
  from issue_validate_roundtrip[OF ok ttl fresh] show ?thesis
    using ok at by (simp add: alice_def)
qed

text \<open>
  C4. For every configuration, a \<open>logout\<close> that reaches the store writes the revocation
  entry of the token id with the fixed lifetime of 900 seconds, whatever the configured
  access lifetime and whatever lifetime the access token has left, deletes the subject's
  refresh record and touches no other key.
\<close>

theorem logout_blacklists_fixed_ttl:
  assumes "redis_up w"
  shows "fst (logout w userId j) = Inr ''Logged out successfully''
   \<and> redis (snd (logout w userId j)) (''blacklist:'' @ j) = Some (Str ''1'', clock w + 900)
   \<and> redis (snd (logout w userId j)) (''refresh:'' @ userId) = None
   \<and> (\<forall>k. k = ''blacklist:'' @ j \<or> k = ''refresh:'' @ userId
          \<or> redis (snd (logout w userId j)) k = redis w k)
   \<and> redis_log (snd (logout w userId j)) = redis_log w @
        [SET (''blacklist:'' @ j) (Str ''1'') 900, DEL (''refresh:'' @ userId)]"
  using assms by (simp add: logout_eq)

theorem logout_blacklists_fixed_ttl_witness:
  "redis_up world1
   \<and> redis world1 ''refresh:u1'' \<noteq> None
   \<and> fst (logout world1 ''u1'' ''a'') = Inr ''Logged out successfully''
   \<and> redis (snd (logout world1 ''u1'' ''a'')) (''blacklist:'' @ ''a'') = Some (Str ''1'', clock world1 + 900)
   \<and> redis (snd (logout world1 ''u1'' ''a'')) (''refresh:'' @ ''u1'') = None"
proof -
  have up: "redis_up world1" and rec: "redis world1 ''refresh:u1'' \<noteq> None"
    by (simp_all add: run_defs scenario_defs)
  from logout_blacklists_fixed_ttl[OF up, of "''u1''" "''a''"] up rec show ?thesis
    by simp
qed

text \<open>
  The claim as stated fails. Alice's access token, issued at second 1000, expires at 1900;
  a logout at 1100 writes an entry that lives until 2000: its lifetime is 900 and not the
  800 seconds the token has left, and it outlives the token. With an access lifetime of 60
  seconds configured the entry still lives 900 seconds.
\<close>

theorem logout_ttl_counterexample:
  "accessToken (projr (fst (login world0 alice))) = at0
   \<and> exp (signed_claims at0) = 1900
   \<and> jti (signed_claims at0) = Some ''a''
   \<and> redis (snd (logout (advance 100 world1) ''u1'' ''a'')) ''blacklist:a''
       = Some (Str ''1'', 2000)
   \<and> accessExpiresIn (conf (world0\<lparr>conf := (conf world0)\<lparr>accessExpiresIn := 60\<rparr>\<rparr>)) = 60
   \<and> redis (snd (logout (world0\<lparr>conf := (conf world0)\<lparr>accessExpiresIn := 60\<rparr>\<rparr>) ''u1'' ''a''))
        ''blacklist:a'' = Some (Str ''1'', clock world0 + 900)"
  by (simp add: run_defs scenario_defs)

section \<open>Rotation of the refresh record\<close>

text \<open>
  C1. Rotation invalidation does not hold in the code. Carol logs in at second 1000 and is
  handed \<open>rt_carol\<close>; five seconds later the refresh request with \<open>rt_carol\<close> succeeds and
  issues a different refresh token, whose digest replaces the record; the next refresh
  request with \<open>rt_carol\<close> succeeds again. bcrypt reads the first 72 bytes of a token, and
  in these the two tokens agree.
\<close>

theorem rotation_not_enforced:
  "refreshToken (projr (fst (login world_carol carol))) = rt_carol
   \<and> \<not> isl (fst (refresh_request (advance 5 (snd (login world_carol carol))) rt_carol))
   \<and> refreshToken (projr (fst (refresh_request (advance 5 (snd (login world_carol carol)))
           rt_carol))) \<noteq> rt_carol
   \<and> \<not> isl (fst (refresh_request
           (snd (refresh_request (advance 5 (snd (login world_carol carol))) rt_carol))
           rt_carol))"
  by (simp add: run_defs scenario_defs bcrypt_key_carol[unfolded refresh_claims_def])

text \<open>
  C3. A single active session does not hold in the code. Every issuance overwrites the
  one record of the subject, but after Carol's logins at seconds 1000 and 1005, which are
  handed different refresh tokens, the refresh request with the token of the first login
  still succeeds.
\<close>

theorem first_session_survives_second_login:
  "refreshToken (projr (fst (login world_carol carol))) = rt_carol
   \<and> \<not> isl (fst (login (advance 5 (snd (login world_carol carol))) carol))
   \<and> refreshToken (projr (fst (login (advance 5 (snd (login world_carol carol))) carol)))
       \<noteq> rt_carol
   \<and> redis (snd (login (advance 5 (snd (login world_carol carol))) carol))
         ''refresh:7c9e6679-7425-40de-944b-e07fc1f90ae7''
       = Some (Digest (Bcrypt ''aaaa'' 10
           (bcrypt_key (compact (hmac world_carol)
              (refreshToken (projr (fst (login (advance 5 (snd (login world_carol carol)))
                 carol))))))), 605805)
   \<and> \<not> isl (fst (refresh_request (snd (login (advance 5 (snd (login world_carol carol))) carol))
           rt_carol))"
  by (simp add: run_defs scenario_defs bcrypt_key_carol[unfolded refresh_claims_def])

section \<open>The local guard and the remote operation\<close>

text \<open>
  C9. The local guard and the remote operation run the same verification of signature and
  expiry and the same revocation lookup, sending the same store command; the guard
  further requires the subject to be in the directory and active, and takes id, email and
  roles from the directory. So the guard accepts a token exactly when the remote operation
  finds it valid and its subject is present and active, and then the identity it returns
  has the token's subject and token id.
\<close>

theorem guard_accepts_iff_remote_valid_and_active:
  "((\<exists>pr. fst (JwtStrategy w t) = Inr pr) \<longleftrightarrow>
      (\<exists>c u. fst (validateToken w t) = Inr \<lparr>valid = True, vpayload = Some c\<rparr>
         \<and> findById w (sub c) = Some u \<and> isActive u))
   \<and> (\<forall>pr. fst (JwtStrategy w t) \<noteq> Inr pr
        \<or> (\<exists>c u. fst (validateToken w t) = Inr \<lparr>valid = True, vpayload = Some c\<rparr>
              \<and> findById w (sub c) = Some u
              \<and> pr = \<lparr>principal_id = sub c, principal_email = email u,
                       principal_roles = roles u, principal_jti = jti c\<rparr>))
   \<and> (\<forall>c. jwt_verify (accessSecret (conf w)) (clock w) t \<noteq> Inr c
        \<or> snd (JwtStrategy w t) = snd (validateToken w t))"
proof (intro conjI allI)
  show "(\<exists>pr. fst (JwtStrategy w t) = Inr pr) \<longleftrightarrow>
      (\<exists>c u. fst (validateToken w t) = Inr \<lparr>valid = True, vpayload = Some c\<rparr>
         \<and> findById w (sub c) = Some u \<and> isActive u)"
    by (auto simp: JwtStrategy_eq validateToken_eq invalid_def
        split: sum.splits option.splits if_splits)
next
  fix pr
  show "fst (JwtStrategy w t) \<noteq> Inr pr
        \<or> (\<exists>c u. fst (validateToken w t) = Inr \<lparr>valid = True, vpayload = Some c\<rparr>
              \<and> findById w (sub c) = Some u
              \<and> pr = \<lparr>principal_id = sub c, principal_email = email u,
                       principal_roles = roles u, principal_jti = jti c\<rparr>)"
    by (auto simp: JwtStrategy_eq validateToken_eq invalid_def dest: findById_user_id
        split: sum.splits option.splits if_splits)
next
  fix c
  show "jwt_verify (accessSecret (conf w)) (clock w) t \<noteq> Inr c
        \<or> snd (JwtStrategy w t) = snd (validateToken w t)"
    by (auto simp: JwtStrategy_eq validateToken_eq)
qed

theorem guard_accepts_iff_remote_valid_and_active_witness:
  "fst (validateToken world1 at0) = Inr \<lparr>valid = True, vpayload = Some (signed_claims at0)\<rparr>
   \<and> findById world1 (sub (signed_claims at0)) = Some alice \<and> isActive alice
   \<and> (\<exists>pr. fst (JwtStrategy world1 at0) = Inr pr)
   \<and> fst (JwtStrategy world1 at0)
       = Inr \<lparr>principal_id = ''u1'', principal_email = ''alice@example.com'',
              principal_roles = [''user''], principal_jti = Some ''a''\<rparr>"
proof -
  have v: "fst (validateToken world1 at0)
      = Inr \<lparr>valid = True, vpayload = Some (signed_claims at0)\<rparr>"
    and f: "findById world1 (sub (signed_claims at0)) = Some alice" and a: "isActive alice"
    by (simp_all add: run_defs scenario_defs)
  then have "\<exists>c u. fst (validateToken world1 at0) = Inr \<lparr>valid = True, vpayload = Some c\<rparr>
         \<and> findById world1 (sub c) = Some u \<and> isActive u"
    by blast
  with guard_accepts_iff_remote_valid_and_active[of world1 at0]
  have acc: "\<exists>pr. fst (JwtStrategy world1 at0) = Inr pr" by blast
  have "fst (JwtStrategy world1 at0)
       = Inr \<lparr>principal_id = ''u1'', principal_email = ''alice@example.com'',
              principal_roles = [''user''], principal_jti = Some ''a''\<rparr>"
    by (simp add: run_defs scenario_defs)
  with v f a acc show ?thesis by simp
qed

text \<open>
  The claim as stated fails: the access token of the deactivated Bob is valid for the
  remote operation and rejected by the local guard.
\<close>

theorem guard_differs_from_remote_counterexample:
  "accessToken (projr (fst (login world0 bob))) = at_bob
   \<and> fst (validateToken (snd (login world0 bob)) at_bob)
       = Inr \<lparr>valid = True, vpayload = Some (signed_claims at_bob)\<rparr>
   \<and> fst (getUserFromToken (snd (login world0 bob)) at_bob)
       = Inr (UserReply (Some (signed_claims at_bob)))
   \<and> fst (JwtStrategy (snd (login world0 bob)) at_bob)
       = Inl (UnauthorizedException ''User not found or inactive'')"
  by (simp add: run_defs scenario_defs)

text \<open>
  C10. The local guard rejects every token whose subject is missing from the directory or
  inactive; when the token passes signature, expiry and revocation the rejection is a 401
  ``User not found or inactive''.
\<close>

theorem guard_rejects_missing_or_inactive:
  assumes "findById w (sub c) = None \<or> (\<exists>u. findById w (sub c) = Some u \<and> \<not> isActive u)"
  shows "isl (fst (JwtStrategy w (Jwt k c)))
     \<and> (k = accessSecret (conf w) \<and> clock w < exp c \<and> redis_up w
          \<and> live w (''blacklist:'' @ template (jti c)) = None \<longrightarrow>
        fst (JwtStrategy w (Jwt k c)) = Inl (UnauthorizedException ''User not found or inactive''))"
  using assms
  by (auto simp: JwtStrategy_eq split: sum.splits option.splits if_splits)

text \<open>
  The guard accepts Alice's token; once she is deactivated, or removed from the directory,
  it rejects the same token in the same second.
\<close>

theorem guard_rejects_missing_or_inactive_witness:
  "\<not> isl (fst (JwtStrategy world1 at0))
   \<and> findById (world1\<lparr>users := [alice\<lparr>isActive := False\<rparr>, bob]\<rparr>) ''u1''
       = Some (alice\<lparr>isActive := False\<rparr>)
   \<and> fst (JwtStrategy (world1\<lparr>users := [alice\<lparr>isActive := False\<rparr>, bob]\<rparr>) at0)
       = Inl (UnauthorizedException ''User not found or inactive'')
   \<and> findById (world1\<lparr>users := [bob]\<rparr>) ''u1'' = None
   \<and> fst (JwtStrategy (world1\<lparr>users := [bob]\<rparr>) at0)
       = Inl (UnauthorizedException ''User not found or inactive'')"
proof -
  let ?c = "signed_claims at0"
  let ?w1 = "world1\<lparr>users := [alice\<lparr>isActive := False\<rparr>, bob]\<rparr>"
  let ?w2 = "world1\<lparr>users := [bob]\<rparr>"
  have at: "at0 = Jwt ''access-secret'' ?c" and s: "sub ?c = ''u1''"
    by (simp_all add: at0_def)
  have f1: "findById ?w1 ''u1'' = Some (alice\<lparr>isActive := False\<rparr>)"
    and f2: "findById ?w2 ''u1'' = None"
    by (simp_all add: findById_def alice_def bob_def)
  have h1: "findById ?w1 (sub ?c) = None
      \<or> (\<exists>u. findById ?w1 (sub ?c) = Some u \<and> \<not> isActive u)"
    using f1 s by simp
  have h2: "findById ?w2 (sub ?c) = None
      \<or> (\<exists>u. findById ?w2 (sub ?c) = Some u \<and> \<not> isActive u)"
    using f2 s by simp
  have pre1: "''access-secret'' = accessSecret (conf ?w1) \<and> clock ?w1 < exp ?c \<and> redis_up ?w1
          \<and> live ?w1 (''blacklist:'' @ template (jti ?c)) = None"
    and pre2: "''access-secret'' = accessSecret (conf ?w2) \<and> clock ?w2 < exp ?c \<and> redis_up ?w2
          \<and> live ?w2 (''blacklist:'' @ template (jti ?c)) = None"
    by (simp_all add: run_defs scenario_defs)
  have acc: "\<not> isl (fst (JwtStrategy world1 at0))"
    by (simp add: run_defs scenario_defs)
  from guard_rejects_missing_or_inactive[OF h1, of "''access-secret''"] pre1
  have r1: "fst (JwtStrategy ?w1 at0) = Inl (UnauthorizedException ''User not found or inactive'')"
    using at by simp
  from guard_rejects_missing_or_inactive[OF h2, of "''access-secret''"] pre2
  have r2: "fst (JwtStrategy ?w2 at0) = Inl (UnauthorizedException ''User not found or inactive'')"
    using at by simp
  from acc f1 r1 f2 r2 show ?thesis by simp
qed

end
